theory Spec2Isabelle
  imports Main
begin

section \<open>JavaScript values\<close>

text \<open>
  The controllers of \<^verbatim>\<open>controllers/userController.js\<close> read the route parameter
  \<^verbatim>\<open>req.params.id\<close> (always a string) and the fields of the JSON body \<^verbatim>\<open>req.body\<close>.
  A body field is absent (\<open>Undefined\<close> after destructuring), \<^verbatim>\<open>null\<close>, a boolean, a
  number or a string. Numbers are modelled as mathematical integers, with \<open>NaN\<close> as the
  one non-finite number the code can produce (through \<^verbatim>\<open>parseInt\<close>); strings are ASCII
  strings. Fractional numbers, numbers beyond the range where a double is exact, nested
  arrays and objects are outside this model.
\<close>

datatype jsval = Undefined | Null | Bool bool | Num int | NaN | Str string

text \<open>ToBoolean: what \<^verbatim>\<open>!x\<close>, \<^verbatim>\<open>x ? a : b\<close>, \<^verbatim>\<open>x || y\<close> and \<^verbatim>\<open>if (x)\<close> test.\<close>

fun truthy :: "jsval \<Rightarrow> bool" where
  "truthy Undefined = False"
| "truthy Null = False"
| "truthy (Bool b) = b"
| "truthy (Num n) = (n \<noteq> 0)"
| "truthy NaN = False"
| "truthy (Str s) = (s \<noteq> [])"

text \<open>\<^verbatim>\<open>a || b\<close>\<close>

definition js_or :: "jsval \<Rightarrow> jsval \<Rightarrow> jsval" where
  "js_or a b = (if truthy a then a else b)"

subsection \<open>parseInt\<close>

text \<open>
  \<^verbatim>\<open>parseInt(string)\<close> with no radix: skip leading white space, read an optional sign,
  switch to radix 16 after a \<^verbatim>\<open>0x\<close> prefix, then read the longest prefix of digits of the
  radix. With no digit the result is NaN (here \<open>None\<close>); whatever follows the digits is
  ignored.
\<close>

definition isWhiteSpace :: "char \<Rightarrow> bool" where
  "isWhiteSpace c = (c \<in> set [CHR 0x09, CHR 0x0A, CHR 0x0B, CHR 0x0C, CHR 0x0D, CHR 0x20])"

definition digit_of :: "char \<Rightarrow> nat" where
  "digit_of c =
     (let k = (of_char c :: nat) in
      if 48 \<le> k \<and> k \<le> 57 then k - 48
      else if 97 \<le> k \<and> k \<le> 122 then k - 87
      else if 65 \<le> k \<and> k \<le> 90 then k - 55
      else 36)"

definition radix_digits :: "nat \<Rightarrow> string \<Rightarrow> string" where
  "radix_digits R s = takeWhile (\<lambda>c. digit_of c < R) s"

definition digits_value :: "nat \<Rightarrow> string \<Rightarrow> nat" where
  "digits_value R ds = foldl (\<lambda>acc c. acc * R + digit_of c) 0 ds"

definition parseInt_str :: "string \<Rightarrow> int option" where
  "parseInt_str input =
     (let s = dropWhile isWhiteSpace input;
          neg = (take 1 s = ''-'');
          s1 = (if take 1 s = ''+'' \<or> take 1 s = ''-'' then drop 1 s else s);
          hex = (take 2 s1 = ''0x'' \<or> take 2 s1 = ''0X'');
          R = (if hex then 16 else 10);
          s2 = (if hex then drop 2 s1 else s1);
          z = radix_digits R s2
      in if z = [] then None
         else Some ((if neg then - 1 else 1) * int (digits_value R z)))"

text \<open>
  The decimal text of an integer, as ToString gives it for the integers of this model.
\<close>

definition digit_char :: "nat \<Rightarrow> char" where
  "digit_char d = ''0123456789abcdef'' ! d"

function radix_text :: "nat \<Rightarrow> nat \<Rightarrow> string" where
  "radix_text R n =
     (if R < 2 \<or> n < R then [digit_char n]
      else radix_text R (n div R) @ [digit_char (n mod R)])"
  by pat_completeness auto
termination
  by (relation "measure (\<lambda>(R, n). n)") auto

declare radix_text.simps [simp del]

definition int_to_string :: "int \<Rightarrow> string" where
  "int_to_string i =
     (if i < 0 then CHR ''-'' # radix_text 10 (nat (- i)) else radix_text 10 (nat i))"

fun toString :: "jsval \<Rightarrow> string" where
  "toString Undefined = ''undefined''"
| "toString Null = ''null''"
| "toString (Bool b) = (if b then ''true'' else ''false'')"
| "toString (Num n) = int_to_string n"
| "toString NaN = ''NaN''"
| "toString (Str s) = s"

text \<open>\<^verbatim>\<open>parseInt(v)\<close> converts its argument to a string first.\<close>

definition parseInt :: "jsval \<Rightarrow> int option" where
  "parseInt v = parseInt_str (toString v)"

definition isNaN :: "int option \<Rightarrow> bool" where
  "isNaN x = (x = None)"

text \<open>The number that \<^verbatim>\<open>parseInt\<close> returned, as a value stored in an object.\<close>

definition number :: "int option \<Rightarrow> jsval" where
  "number x = (case x of None \<Rightarrow> NaN | Some n \<Rightarrow> Num n)"


section \<open>Requests, records and responses\<close>

text \<open>
  A request carries the route parameter \<^verbatim>\<open>:id\<close> and the parsed JSON body, an object
  from keys to values. Destructuring \<^verbatim>\<open>const { name, email, age, role } = req.body\<close>
  reads a missing key as \<^verbatim>\<open>undefined\<close>.
\<close>

type_synonym js_object = "string \<rightharpoonup> jsval"

record request =
  params_id :: string
  body :: js_object

definition field :: "js_object \<Rightarrow> string \<Rightarrow> jsval" where
  "field obj k = (case obj k of None \<Rightarrow> Undefined | Some v \<Rightarrow> v)"

text \<open>
  A stored User. The identifier is the ObjectId string \<^verbatim>\<open>_id\<close> in MongoDB and the
  integer \<^verbatim>\<open>id\<close> in PostgreSQL. \<open>None\<close> stands for a field that is null or not set.
  Time stamps are ticks of the store's logical clock.
\<close>

record 'i user =
  ident :: 'i
  name :: string
  email :: string
  age :: "int option"
  role :: "string option"
  createdAt :: nat
  updatedAt :: nat

text \<open>The \<^verbatim>\<open>data\<close> member of a success body: \<^verbatim>\<open>{ users }\<close> or \<^verbatim>\<open>{ user }\<close>.\<close>

datatype 'i data = Users "'i user list" | User "'i user"

text \<open>
  What \<^verbatim>\<open>res.status(c).json({...})\<close> sends: the HTTP status and the members of the
  JSON body (\<open>None\<close> for a member the body does not have).
\<close>

record 'i response =
  http_status :: nat
  status :: string
  message :: "string option"
  results :: "nat option"
  data :: "'i data option"
  error :: "string option"

text \<open>
  An exception thrown by a store call, as the \<^verbatim>\<open>catch (error)\<close> blocks see it:
  \<^verbatim>\<open>error.code\<close> (undefined for most errors) and \<^verbatim>\<open>error.message\<close>.
\<close>

datatype store_error = StoreError (error_code: jsval) (error_message: string)

text \<open>The outcome of an awaited store call.\<close>

datatype 'a outcome = Resolved 'a | Rejected store_error

text \<open>The four shapes of body that the controllers send.\<close>

definition json_error :: "nat \<Rightarrow> string \<Rightarrow> 'i response" where
  "json_error c m =
     \<lparr>http_status = c, status = ''error'', message = Some m, results = None,
      data = None, error = None\<rparr>"

definition json_failure :: "string \<Rightarrow> store_error \<Rightarrow> 'i response" where
  "json_failure m e =
     \<lparr>http_status = 500, status = ''error'', message = Some m, results = None,
      data = None, error = Some (error_message e)\<rparr>"

definition json_user :: "nat \<Rightarrow> string option \<Rightarrow> 'i user \<Rightarrow> 'i response" where
  "json_user c m u =
     \<lparr>http_status = c, status = ''success'', message = m, results = None,
      data = Some (User u), error = None\<rparr>"

definition json_users :: "'i user list \<Rightarrow> 'i response" where
  "json_users us =
     \<lparr>http_status = 200, status = ''success'', message = None,
      results = Some (length us), data = Some (Users us), error = None\<rparr>"

section \<open>The store clients\<close>

text \<open>
  The controllers call the Mongoose model \<^verbatim>\<open>User\<close> and the Prisma delegate
  \<^verbatim>\<open>prisma.user\<close>. Both are taken as parameters: a record of operations over a store
  state \<open>'s\<close>, each returning the awaited outcome and the state after the call.
\<close>

record 's mongoose_model =
  User_find :: "'s \<Rightarrow> string user list outcome \<times> 's"
  User_findById :: "string \<Rightarrow> 's \<Rightarrow> string user option outcome \<times> 's"
  User_create :: "js_object \<Rightarrow> 's \<Rightarrow> string user outcome \<times> 's"
  User_findByIdAndUpdate :: "string \<Rightarrow> js_object \<Rightarrow> 's \<Rightarrow> string user option outcome \<times> 's"
  User_findByIdAndDelete :: "string \<Rightarrow> 's \<Rightarrow> string user option outcome \<times> 's"

record 's prisma_user =
  user_findMany :: "'s \<Rightarrow> int user list outcome \<times> 's"
  user_findUnique :: "int \<Rightarrow> 's \<Rightarrow> int user option outcome \<times> 's"
  user_create :: "js_object \<Rightarrow> 's \<Rightarrow> int user outcome \<times> 's"
  user_update :: "int \<Rightarrow> js_object \<Rightarrow> 's \<Rightarrow> int user outcome \<times> 's"
  user_delete :: "int \<Rightarrow> 's \<Rightarrow> int user outcome \<times> 's"

section \<open>MongoDB controllers\<close>

definition getAllUsersFromMongo ::
  "'s mongoose_model \<Rightarrow> request \<Rightarrow> 's \<Rightarrow> string response \<times> 's" where
  "getAllUsersFromMongo UserM req s =
     (case User_find UserM s of
        (Resolved users, s') \<Rightarrow> (json_users users, s')
      | (Rejected e, s') \<Rightarrow> (json_failure ''Failed to fetch users from MongoDB'' e, s'))"

definition getUserByIdFromMongo ::
  "'s mongoose_model \<Rightarrow> request \<Rightarrow> 's \<Rightarrow> string response \<times> 's" where
  "getUserByIdFromMongo UserM req s =
     (case User_findById UserM (params_id req) s of
        (Resolved None, s') \<Rightarrow> (json_error 404 ''User not found'', s')
      | (Resolved (Some u), s') \<Rightarrow> (json_user 200 None u, s')
      | (Rejected e, s') \<Rightarrow> (json_failure ''Failed to fetch user from MongoDB'' e, s'))"

definition createUserInMongo ::
  "'s mongoose_model \<Rightarrow> request \<Rightarrow> 's \<Rightarrow> string response \<times> 's" where
  "createUserInMongo UserM req s =
     (let name = field (body req) ''name''; email = field (body req) ''email'';
          age = field (body req) ''age''; role = field (body req) ''role''
      in if \<not> truthy name \<or> \<not> truthy email
         then (json_error 400 ''Name and email are required'', s)
         else
           (case User_create UserM
                   [''name'' \<mapsto> name, ''email'' \<mapsto> email, ''age'' \<mapsto> age, ''role'' \<mapsto> role] s of
              (Resolved newUser, s') \<Rightarrow>
                (json_user 201 (Some ''User created successfully'') newUser, s')
            | (Rejected e, s') \<Rightarrow>
                if error_code e = Num 11000
                then (json_error 400 ''Email already exists'', s')
                else (json_failure ''Failed to create user in MongoDB'' e, s')))"

definition updateUserInMongo ::
  "'s mongoose_model \<Rightarrow> request \<Rightarrow> 's \<Rightarrow> string response \<times> 's" where
  "updateUserInMongo UserM req s =
     (let updateData = body req in
      case User_findByIdAndUpdate UserM (params_id req) updateData s of
        (Resolved None, s') \<Rightarrow> (json_error 404 ''User not found'', s')
      | (Resolved (Some updatedUser), s') \<Rightarrow>
          (json_user 200 (Some ''User updated successfully'') updatedUser, s')
      | (Rejected e, s') \<Rightarrow> (json_failure ''Failed to update user in MongoDB'' e, s'))"

definition deleteUserFromMongo ::
  "'s mongoose_model \<Rightarrow> request \<Rightarrow> 's \<Rightarrow> string response \<times> 's" where
  "deleteUserFromMongo UserM req s =
     (case User_findByIdAndDelete UserM (params_id req) s of
        (Resolved None, s') \<Rightarrow> (json_error 404 ''User not found'', s')
      | (Resolved (Some deletedUser), s') \<Rightarrow>
          (json_user 200 (Some ''User deleted successfully'') deletedUser, s')
      | (Rejected e, s') \<Rightarrow> (json_failure ''Failed to delete user from MongoDB'' e, s'))"

section \<open>PostgreSQL controllers\<close>

definition getAllUsersFromPostgres ::
  "'s prisma_user \<Rightarrow> request \<Rightarrow> 's \<Rightarrow> int response \<times> 's" where
  "getAllUsersFromPostgres prisma req s =
     (case user_findMany prisma s of
        (Resolved users, s') \<Rightarrow> (json_users users, s')
      | (Rejected e, s') \<Rightarrow> (json_failure ''Failed to fetch users from PostgreSQL'' e, s'))"

definition getUserByIdFromPostgres ::
  "'s prisma_user \<Rightarrow> request \<Rightarrow> 's \<Rightarrow> int response \<times> 's" where
  "getUserByIdFromPostgres prisma req s =
     (let id = parseInt (Str (params_id req)) in
      if isNaN id then (json_error 400 ''Invalid user ID'', s)
      else
        (case user_findUnique prisma (the id) s of
           (Resolved None, s') \<Rightarrow> (json_error 404 ''User not found'', s')
         | (Resolved (Some u), s') \<Rightarrow> (json_user 200 None u, s')
         | (Rejected e, s') \<Rightarrow> (json_failure ''Failed to fetch user from PostgreSQL'' e, s')))"

text \<open>The object literal passed as \<^verbatim>\<open>data\<close> to \<^verbatim>\<open>prisma.user.create\<close>.\<close>

definition createData :: "js_object \<Rightarrow> js_object" where
  "createData b =
     (let name = field b ''name''; email = field b ''email'';
          age = field b ''age''; role = field b ''role''
      in [''name'' \<mapsto> name, ''email'' \<mapsto> email,
          ''age'' \<mapsto> (if truthy age then number (parseInt age) else Null),
          ''role'' \<mapsto> js_or role (Str ''USER'')])"

definition createUserInPostgres ::
  "'s prisma_user \<Rightarrow> request \<Rightarrow> 's \<Rightarrow> int response \<times> 's" where
  "createUserInPostgres prisma req s =
     (let name = field (body req) ''name''; email = field (body req) ''email'' in
      if \<not> truthy name \<or> \<not> truthy email
      then (json_error 400 ''Name and email are required'', s)
      else
        (case user_create prisma (createData (body req)) s of
           (Resolved newUser, s') \<Rightarrow>
             (json_user 201 (Some ''User created successfully'') newUser, s')
         | (Rejected e, s') \<Rightarrow>
             if error_code e = Str ''P2002''
             then (json_error 400 ''Email already exists'', s')
             else (json_failure ''Failed to create user in PostgreSQL'' e, s')))"

text \<open>
  The sparse object built by \<^verbatim>\<open>updateUserInPostgres\<close>: it starts empty and gets a key
  for each of the four fields whose value is truthy.
\<close>

definition updateData_step :: "string \<Rightarrow> jsval \<Rightarrow> jsval \<Rightarrow> js_object \<Rightarrow> js_object" where
  "updateData_step k test v obj = (if truthy test then obj(k \<mapsto> v) else obj)"

definition buildUpdateData :: "js_object \<Rightarrow> js_object" where
  "buildUpdateData b =
     (let name = field b ''name''; email = field b ''email'';
          age = field b ''age''; role = field b ''role'';
          updateData = Map.empty;
          updateData = updateData_step ''name'' name name updateData;
          updateData = updateData_step ''email'' email email updateData;
          updateData = updateData_step ''age'' age (number (parseInt age)) updateData;
          updateData = updateData_step ''role'' role role updateData
      in updateData)"

definition updateUserInPostgres ::
  "'s prisma_user \<Rightarrow> request \<Rightarrow> 's \<Rightarrow> int response \<times> 's" where
  "updateUserInPostgres prisma req s =
     (let id = parseInt (Str (params_id req)) in
      if isNaN id then (json_error 400 ''Invalid user ID'', s)
      else
        (case user_update prisma (the id) (buildUpdateData (body req)) s of
           (Resolved updatedUser, s') \<Rightarrow>
             (json_user 200 (Some ''User updated successfully'') updatedUser, s')
         | (Rejected e, s') \<Rightarrow>
             if error_code e = Str ''P2025''
             then (json_error 404 ''User not found'', s')
             else (json_failure ''Failed to update user in PostgreSQL'' e, s')))"

definition deleteUserFromPostgres ::
  "'s prisma_user \<Rightarrow> request \<Rightarrow> 's \<Rightarrow> int response \<times> 's" where
  "deleteUserFromPostgres prisma req s =
     (let id = parseInt (Str (params_id req)) in
      if isNaN id then (json_error 400 ''Invalid user ID'', s)
      else
        (case user_delete prisma (the id) s of
           (Resolved deletedUser, s') \<Rightarrow>
             (json_user 200 (Some ''User deleted successfully'') deletedUser, s')
         | (Rejected e, s') \<Rightarrow>
             if error_code e = Str ''P2025''
             then (json_error 404 ''User not found'', s')
             else (json_failure ''Failed to delete user from PostgreSQL'' e, s')))"


section \<open>The Mongoose model of \<^verbatim>\<open>models/User.js\<close>\<close>

text \<open>
  \<^verbatim>\<open>User\<close> is \<^verbatim>\<open>mongoose.model('User', userSchema)\<close>. The schema is data; what the
  model does with it is what the header of \<^verbatim>\<open>models/User.js\<close> lists for each option
  (required, unique, default, lowercase, trim, min/max, enum) and what Mongoose
  documents for \<^verbatim>\<open>minlength\<close>, \<^verbatim>\<open>maxlength\<close> and \<^verbatim>\<open>match\<close>. This section writes that
  reading out as executable functions over an in-memory collection.
\<close>

subsection \<open>String helpers\<close>

definition trim :: "string \<Rightarrow> string" where
  "trim s = rev (dropWhile isWhiteSpace (rev (dropWhile isWhiteSpace s)))"

definition lower_char :: "char \<Rightarrow> char" where
  "lower_char c =
     (case map_of (zip ''ABCDEFGHIJKLMNOPQRSTUVWXYZ'' ''abcdefghijklmnopqrstuvwxyz'') c of
        Some l \<Rightarrow> l
      | None \<Rightarrow> c)"

definition toLowerCase :: "string \<Rightarrow> string" where
  "toLowerCase s = map lower_char s"

subsection \<open>Regular expressions\<close>

text \<open>
  The \<^verbatim>\<open>match\<close> pattern of the email path uses only classes, sequence, grouping,
  \<^verbatim>\<open>?\<close>, \<^verbatim>\<open>*\<close>, \<^verbatim>\<open>+\<close> and a bounded repetition, anchored at both ends, so
  \<^verbatim>\<open>regExp.test\<close> is membership in a regular language. Membership is decided by
  derivatives.
\<close>

datatype regex =
    Nothing
  | Eps
  | Sym "char \<Rightarrow> bool"
  | Alt regex regex
  | Seq regex regex
  | Star regex

fun nullable :: "regex \<Rightarrow> bool" where
  "nullable Nothing = False"
| "nullable Eps = True"
| "nullable (Sym p) = False"
| "nullable (Alt r t) = (nullable r \<or> nullable t)"
| "nullable (Seq r t) = (nullable r \<and> nullable t)"
| "nullable (Star r) = True"

fun alt :: "regex \<Rightarrow> regex \<Rightarrow> regex" where
  "alt Nothing t = t"
| "alt r Nothing = r"
| "alt r t = Alt r t"

fun seq :: "regex \<Rightarrow> regex \<Rightarrow> regex" where
  "seq Nothing t = Nothing"
| "seq r Nothing = Nothing"
| "seq Eps t = t"
| "seq r t = Seq r t"

fun deriv :: "char \<Rightarrow> regex \<Rightarrow> regex" where
  "deriv c Nothing = Nothing"
| "deriv c Eps = Nothing"
| "deriv c (Sym p) = (if p c then Eps else Nothing)"
| "deriv c (Alt r t) = alt (deriv c r) (deriv c t)"
| "deriv c (Seq r t) =
     (if nullable r then alt (seq (deriv c r) t) (deriv c t) else seq (deriv c r) t)"
| "deriv c (Star r) = seq (deriv c r) (Star r)"

fun regex_test :: "regex \<Rightarrow> string \<Rightarrow> bool" where
  "regex_test r [] = nullable r"
| "regex_test r (c # cs) = regex_test (deriv c r) cs"

definition plus :: "regex \<Rightarrow> regex" where
  "plus r = Seq r (Star r)"

definition opt :: "regex \<Rightarrow> regex" where
  "opt r = Alt Eps r"

text \<open>\<^verbatim>\<open>\w\<close>: a letter, a digit or the underscore.\<close>

definition word_char :: "char \<Rightarrow> bool" where
  "word_char c = (digit_of c < 36 \<or> c = CHR ''_'')"

text \<open>\<^verbatim>\<open>\w+([\.-]?\w+)*\<close>, which the pattern has on both sides of the \<^verbatim>\<open>@\<close>.\<close>

definition dotted_words :: regex where
  "dotted_words =
     Seq (plus (Sym word_char))
         (Star (Seq (opt (Sym (\<lambda>c. c = CHR ''.'' \<or> c = CHR ''-''))) (plus (Sym word_char))))"

text \<open>\<^verbatim>\<open>/^\w+([\.-]?\w+)*@\w+([\.-]?\w+)*(\.\w{2,3})+$/\<close>\<close>

definition email_pattern :: regex where
  "email_pattern =
     Seq dotted_words
       (Seq (Sym (\<lambda>c. c = CHR ''@''))
          (Seq dotted_words
             (plus (Seq (Sym (\<lambda>c. c = CHR ''.''))
                     (Seq (Sym word_char) (Seq (Sym word_char) (opt (Sym word_char))))))))"


subsection \<open>Casting\<close>

text \<open>
  Mongoose casts a value to the type of its path before setters and validators see it.
  A String path takes a string as it is and the text of a number or boolean; a Number
  path takes a number, a boolean as 1 or 0, the empty string as null, and any other
  string through \<^verbatim>\<open>Number(s)\<close>, failing when that is NaN. \<open>None\<close> is a failed cast.
  \<^verbatim>\<open>null\<close> and \<^verbatim>\<open>undefined\<close> pass through both.

  \<open>stringToNumber\<close> reads the integer literals (decimal with a sign, or hexadecimal);
  a literal with a fraction or an exponent denotes a number outside this model and is
  read as not numeric.
\<close>

definition castString :: "jsval \<Rightarrow> jsval" where
  "castString v = (if v = Undefined \<or> v = Null then v else Str (toString v))"

definition all_digits :: "nat \<Rightarrow> string \<Rightarrow> bool" where
  "all_digits R s = (s \<noteq> [] \<and> list_all (\<lambda>c. digit_of c < R) s)"

definition stringToNumber :: "string \<Rightarrow> int option" where
  "stringToNumber input =
     (let t = trim input;
          neg = (take 1 t = ''-'');
          ds = (if take 1 t = ''+'' \<or> take 1 t = ''-'' then drop 1 t else t)
      in if t = [] then Some 0
         else if take 2 t = ''0x'' \<or> take 2 t = ''0X''
         then (if all_digits 16 (drop 2 t) then Some (int (digits_value 16 (drop 2 t))) else None)
         else if all_digits 10 ds
         then Some ((if neg then - 1 else 1) * int (digits_value 10 ds))
         else None)"

fun castNumber :: "jsval \<Rightarrow> jsval option" where
  "castNumber Undefined = Some Undefined"
| "castNumber Null = Some Null"
| "castNumber (Bool b) = Some (Num (if b then 1 else 0))"
| "castNumber (Num n) = Some (Num n)"
| "castNumber NaN = None"
| "castNumber (Str s) = (if s = [] then Some Null else map_option Num (stringToNumber s))"

subsection \<open>The paths of \<^verbatim>\<open>userSchema\<close>\<close>

text \<open>
  Each path function takes the raw value, applies cast and setters, then the validators
  in the order Mongoose runs them (\<^verbatim>\<open>required\<close> first), and returns the value to store
  or the message of the first validator that fails. The length and pattern validators
  skip null and the empty string; \<^verbatim>\<open>min\<close>, \<^verbatim>\<open>max\<close> and \<^verbatim>\<open>enum\<close> skip null and
  undefined.
\<close>

definition name_path :: "jsval \<Rightarrow> string + jsval" where
  "name_path v =
     (case castString v of
        Str s \<Rightarrow>
          (let t = trim s in
           if t = [] then Inl ''Name is required''
           else if length t < 2 then Inl ''Name must be at least 2 characters''
           else if 50 < length t then Inl ''Name cannot exceed 50 characters''
           else Inr (Str t))
      | _ \<Rightarrow> Inl ''Name is required'')"

definition email_path :: "jsval \<Rightarrow> string + jsval" where
  "email_path v =
     (case castString v of
        Str s \<Rightarrow>
          (let t = trim (toLowerCase s) in
           if t = [] then Inl ''Email is required''
           else if \<not> regex_test email_pattern t then Inl ''Please provide a valid email''
           else Inr (Str t))
      | _ \<Rightarrow> Inl ''Email is required'')"

definition age_path :: "jsval \<Rightarrow> string + jsval" where
  "age_path v =
     (case castNumber v of
        None \<Rightarrow> Inl ''Cast to Number failed''
      | Some (Num n) \<Rightarrow>
          (if n < 0 then Inl ''Age cannot be negative''
           else if 150 < n then Inl ''Age seems invalid''
           else Inr (Num n))
      | Some w \<Rightarrow> Inr w)"

definition role_path :: "jsval \<Rightarrow> string + jsval" where
  "role_path v =
     (case castString v of
        Str s \<Rightarrow>
          (if s \<in> set [''USER'', ''ADMIN'', ''MODERATOR''] then Inr (Str s)
           else Inl (s @ '' is not a valid role''))
      | w \<Rightarrow> Inr w)"

text \<open>\<^verbatim>\<open>default: 'USER'\<close> applies to a new document whose role is undefined.\<close>

definition role_default :: "jsval \<Rightarrow> jsval" where
  "role_default v = (if v = Undefined then Str ''USER'' else v)"

fun path_errors :: "(string \<times> (string + jsval)) list \<Rightarrow> (string \<times> string) list" where
  "path_errors [] = []"
| "path_errors ((p, Inl m) # xs) = (p, m) # path_errors xs"
| "path_errors ((p, Inr v) # xs) = path_errors xs"

fun join :: "string \<Rightarrow> string list \<Rightarrow> string" where
  "join sep [] = []"
| "join sep [x] = x"
| "join sep (x # y # ys) = x @ sep @ join sep (y # ys)"

definition ValidationError :: "(string \<times> string) list \<Rightarrow> store_error" where
  "ValidationError errs =
     StoreError Undefined
       (''Validation failed: '' @ join '', '' (map (\<lambda>(p, m). p @ '': '' @ m) errs))"

definition CastError :: "string \<Rightarrow> store_error" where
  "CastError v = StoreError Undefined (''Cast to ObjectId failed for value '' @ v)"

definition DuplicateKeyError :: store_error where
  "DuplicateKeyError = StoreError (Num 11000) ''E11000 duplicate key error''"

text \<open>The stored form of a path value.\<close>

definition stored :: "string + jsval \<Rightarrow> jsval" where
  "stored r = (case r of Inl m \<Rightarrow> Undefined | Inr v \<Rightarrow> v)"

definition text_of :: "jsval \<Rightarrow> string option" where
  "text_of v = (case v of Str s \<Rightarrow> Some s | _ \<Rightarrow> None)"

definition int_of :: "jsval \<Rightarrow> int option" where
  "int_of v = (case v of Num n \<Rightarrow> Some n | _ \<Rightarrow> None)"

subsection \<open>The collection\<close>

text \<open>
  A store state: the records in insertion order, the counter from which the next
  identifier is made, and a logical clock for the time stamps.
\<close>

record 'i collection =
  rows :: "'i user list"
  counter :: nat
  clock :: nat

text \<open>An ObjectId is written as 24 hexadecimal digits.\<close>

definition isValidObjectId :: "string \<Rightarrow> bool" where
  "isValidObjectId v = (length v = 24 \<and> list_all (\<lambda>c. digit_of c < 16) v)"

definition objectId :: "nat \<Rightarrow> string" where
  "objectId n = (let h = radix_text 16 n in replicate (24 - length h) CHR ''0'' @ h)"

definition Model_find :: "string collection \<Rightarrow> string user list outcome \<times> string collection" where
  "Model_find db = (Resolved (rows db), db)"

definition Model_findById ::
  "string \<Rightarrow> string collection \<Rightarrow> string user option outcome \<times> string collection" where
  "Model_findById v db =
     (if \<not> isValidObjectId v then (Rejected (CastError v), db)
      else (Resolved (find (\<lambda>d. ident d = toLowerCase v) (rows db)), db))"

text \<open>The validation errors of a new document, path by path.\<close>

definition create_errors :: "js_object \<Rightarrow> (string \<times> string) list" where
  "create_errors obj =
     path_errors
       [(''name'', name_path (field obj ''name'')),
        (''email'', email_path (field obj ''email'')),
        (''age'', age_path (field obj ''age'')),
        (''role'', role_path (role_default (field obj ''role'')))]"

definition Model_create ::
  "js_object \<Rightarrow> string collection \<Rightarrow> string user outcome \<times> string collection" where
  "Model_create obj db =
     (let n = name_path (field obj ''name'');
          e = email_path (field obj ''email'');
          a = age_path (field obj ''age'');
          r = role_path (role_default (field obj ''role''));
          errs = create_errors obj
      in if errs \<noteq> [] then (Rejected (ValidationError errs), db)
         else if list_ex (\<lambda>d. Some (email d) = text_of (stored e)) (rows db)
         then (Rejected DuplicateKeyError, db)
         else
           (let doc = \<lparr>ident = objectId (counter db),
                       name = the (text_of (stored n)),
                       email = the (text_of (stored e)),
                       age = int_of (stored a),
                       role = text_of (stored r),
                       createdAt = clock db,
                       updatedAt = clock db\<rparr>
            in (Resolved doc,
                db\<lparr>rows := rows db @ [doc], counter := Suc (counter db),
                   clock := Suc (clock db)\<rparr>)))"

text \<open>
  \<^verbatim>\<open>findByIdAndUpdate(id, update, { new: true, runValidators: true })\<close>: the keys of the
  update that are schema paths are set; each is cast and validated first, before the
  query is sent. The unique index on email rejects a write that sets the email to one
  that another document has.
\<close>

definition set_path :: "js_object \<Rightarrow> string \<Rightarrow> (jsval \<Rightarrow> string + jsval) \<Rightarrow> (string + jsval) option" where
  "set_path upd k p = map_option p (upd k)"

fun set_errors :: "(string \<times> (string + jsval) option) list \<Rightarrow> (string \<times> string) list" where
  "set_errors [] = []"
| "set_errors ((p, Some (Inl m)) # xs) = (p, m) # set_errors xs"
| "set_errors ((p, _) # xs) = set_errors xs"

definition apply_update ::
  "(string + jsval) option \<Rightarrow> (string + jsval) option \<Rightarrow> (string + jsval) option \<Rightarrow>
   (string + jsval) option \<Rightarrow> nat \<Rightarrow> 'i user \<Rightarrow> 'i user" where
  "apply_update n e a r t d =
     d\<lparr>name := (case n of Some x \<Rightarrow> the (text_of (stored x)) | None \<Rightarrow> name d),
       email := (case e of Some x \<Rightarrow> the (text_of (stored x)) | None \<Rightarrow> email d),
       age := (case a of Some x \<Rightarrow> int_of (stored x) | None \<Rightarrow> age d),
       role := (case r of Some x \<Rightarrow> text_of (stored x) | None \<Rightarrow> role d),
       updatedAt := t\<rparr>"

text \<open>The validation errors of an update: those of the paths it sets.\<close>

definition update_errors :: "js_object \<Rightarrow> (string \<times> string) list" where
  "update_errors upd =
     set_errors
       [(''name'', set_path upd ''name'' name_path),
        (''email'', set_path upd ''email'' email_path),
        (''age'', set_path upd ''age'' age_path),
        (''role'', set_path upd ''role'' role_path)]"

definition Model_findByIdAndUpdate ::
  "string \<Rightarrow> js_object \<Rightarrow> string collection \<Rightarrow>
   string user option outcome \<times> string collection" where
  "Model_findByIdAndUpdate v upd db =
     (let n = set_path upd ''name'' name_path;
          e = set_path upd ''email'' email_path;
          a = set_path upd ''age'' age_path;
          r = set_path upd ''role'' role_path;
          errs = update_errors upd
      in if \<not> isValidObjectId v then (Rejected (CastError v), db)
         else if errs \<noteq> [] then (Rejected (ValidationError errs), db)
         else
           (case find (\<lambda>d. ident d = toLowerCase v) (rows db) of
              None \<Rightarrow> (Resolved None, db)
            | Some d \<Rightarrow>
                (let d' = apply_update n e a r (clock db) d in
                 if e \<noteq> None \<and> list_ex (\<lambda>x. ident x \<noteq> ident d \<and> email x = email d') (rows db)
                 then (Rejected DuplicateKeyError, db)
                 else (Resolved (Some d'),
                       db\<lparr>rows := map (\<lambda>x. if ident x = ident d then d' else x) (rows db),
                          clock := Suc (clock db)\<rparr>))))"

definition Model_findByIdAndDelete ::
  "string \<Rightarrow> string collection \<Rightarrow> string user option outcome \<times> string collection" where
  "Model_findByIdAndDelete v db =
     (if \<not> isValidObjectId v then (Rejected (CastError v), db)
      else
        (case find (\<lambda>d. ident d = toLowerCase v) (rows db) of
           None \<Rightarrow> (Resolved None, db)
         | Some d \<Rightarrow> (Resolved (Some d), db\<lparr>rows := filter (\<lambda>x. ident x \<noteq> ident d) (rows db)\<rparr>)))"

definition UserModel :: "string collection mongoose_model" where
  "UserModel =
     \<lparr>User_find = Model_find,
      User_findById = Model_findById,
      User_create = Model_create,
      User_findByIdAndUpdate = Model_findByIdAndUpdate,
      User_findByIdAndDelete = Model_findByIdAndDelete\<rparr>"


section \<open>The Prisma delegate \<^verbatim>\<open>prisma.user\<close>\<close>

text \<open>
  Modelled from the spec: \<^verbatim>\<open>prisma/schema.prisma\<close>, which declares the User table behind
  \<^verbatim>\<open>prisma.user\<close>, is not among the sources. The table is the User of the data model:
  an integer \<^verbatim>\<open>id\<close> assigned by the store, \<^verbatim>\<open>name\<close> and \<^verbatim>\<open>email\<close> required text with
  \<^verbatim>\<open>email\<close> unique within the store, \<^verbatim>\<open>age\<close> an optional integer, \<^verbatim>\<open>role\<close> one of
  USER, ADMIN, MODERATOR with default USER, and time stamps set by the store, with
  \<^verbatim>\<open>updatedAt\<close> refreshed on every mutation. The store reports a unique-constraint
  violation with code P2002 and a missing row on update or delete with code P2025;
  an update changes the supplied fields only. A value of the wrong type for its column
  is rejected with an error that has no code. The unique constraint compares the stored
  text as it is; column widths are not modelled.
\<close>

definition is_text :: "jsval \<Rightarrow> bool" where
  "is_text v = (case v of Str s \<Rightarrow> True | _ \<Rightarrow> False)"

definition is_optional_text :: "jsval \<Rightarrow> bool" where
  "is_optional_text v = (case v of Undefined \<Rightarrow> True | Str s \<Rightarrow> True | _ \<Rightarrow> False)"

definition is_optional_int :: "jsval \<Rightarrow> bool" where
  "is_optional_int v = (case v of Undefined \<Rightarrow> True | Null \<Rightarrow> True | Num n \<Rightarrow> True | _ \<Rightarrow> False)"

definition is_optional_role :: "jsval \<Rightarrow> bool" where
  "is_optional_role v =
     (case v of
        Undefined \<Rightarrow> True
      | Str s \<Rightarrow> s \<in> set [''USER'', ''ADMIN'', ''MODERATOR'']
      | _ \<Rightarrow> False)"

definition PrismaValidationError :: store_error where
  "PrismaValidationError = StoreError Undefined ''Invalid value provided''"

definition UniqueConstraintError :: store_error where
  "UniqueConstraintError = StoreError (Str ''P2002'') ''Unique constraint failed on the fields: email''"

definition RecordNotFoundError :: store_error where
  "RecordNotFoundError = StoreError (Str ''P2025'') ''Record not found''"

text \<open>
  Modelled from the spec: \<^verbatim>\<open>findMany()\<close> returns all rows of the table.
\<close>

definition delegate_findMany :: "int collection \<Rightarrow> int user list outcome \<times> int collection" where
  "delegate_findMany db = (Resolved (rows db), db)"

text \<open>
  Modelled from the spec: \<^verbatim>\<open>findUnique({ where: { id } })\<close> returns the row with that id, or null.
\<close>

definition delegate_findUnique ::
  "int \<Rightarrow> int collection \<Rightarrow> int user option outcome \<times> int collection" where
  "delegate_findUnique i db = (Resolved (find (\<lambda>r. ident r = i) (rows db)), db)"

text \<open>
  Modelled from the spec: the types of the four columns, which \<^verbatim>\<open>create\<close> checks of its
  data before it writes.
\<close>

definition create_data_ok :: "js_object \<Rightarrow> bool" where
  "create_data_ok d =
     (is_text (field d ''name'') \<and> is_text (field d ''email'') \<and>
      is_optional_int (field d ''age'') \<and> is_optional_role (field d ''role''))"

text \<open>
  Modelled from the spec: \<^verbatim>\<open>create({ data })\<close> inserts a row with the next id, the default role when none
  is given and both time stamps set to now; an email that a row already has is P2002.
\<close>

definition delegate_create ::
  "js_object \<Rightarrow> int collection \<Rightarrow> int user outcome \<times> int collection" where
  "delegate_create d db =
     (if \<not> create_data_ok d
      then (Rejected PrismaValidationError, db)
      else if list_ex (\<lambda>r. Some (email r) = text_of (field d ''email'')) (rows db)
      then (Rejected UniqueConstraintError, db)
      else
        (let row = \<lparr>ident = int (counter db),
                    name = the (text_of (field d ''name'')),
                    email = the (text_of (field d ''email'')),
                    age = int_of (field d ''age''),
                    role = text_of (role_default (field d ''role'')),
                    createdAt = clock db,
                    updatedAt = clock db\<rparr>
         in (Resolved row,
             db\<lparr>rows := rows db @ [row], counter := Suc (counter db),
                clock := Suc (clock db)\<rparr>)))"

text \<open>
  Modelled from the spec: the types of the four columns, which \<^verbatim>\<open>update\<close> checks of the
  fields its data has before it looks for the row.
\<close>

definition update_data_ok :: "js_object \<Rightarrow> bool" where
  "update_data_ok d =
     (is_optional_text (field d ''name'') \<and> is_optional_text (field d ''email'') \<and>
      is_optional_int (field d ''age'') \<and> is_optional_role (field d ''role''))"

text \<open>
  Modelled from the spec: the supplied fields replace those of the row, the others stay.
\<close>

definition apply_data :: "js_object \<Rightarrow> nat \<Rightarrow> 'i user \<Rightarrow> 'i user" where
  "apply_data d t r =
     r\<lparr>name := (case field d ''name'' of Str x \<Rightarrow> x | _ \<Rightarrow> name r),
       email := (case field d ''email'' of Str x \<Rightarrow> x | _ \<Rightarrow> email r),
       age := (case field d ''age'' of Undefined \<Rightarrow> age r | v \<Rightarrow> int_of v),
       role := (case field d ''role'' of Str x \<Rightarrow> Some x | _ \<Rightarrow> role r),
       updatedAt := t\<rparr>"

text \<open>
  Modelled from the spec: \<^verbatim>\<open>update({ where: { id }, data })\<close> changes the supplied fields of the row and
  refreshes \<^verbatim>\<open>updatedAt\<close>; no such row is P2025, an email that another row has is P2002.
\<close>

definition delegate_update ::
  "int \<Rightarrow> js_object \<Rightarrow> int collection \<Rightarrow> int user outcome \<times> int collection" where
  "delegate_update i d db =
     (if \<not> update_data_ok d
      then (Rejected PrismaValidationError, db)
      else
        (case find (\<lambda>r. ident r = i) (rows db) of
           None \<Rightarrow> (Rejected RecordNotFoundError, db)
         | Some r \<Rightarrow>
             (let r' = apply_data d (clock db) r in
              if is_text (field d ''email'') \<and>
                 list_ex (\<lambda>x. ident x \<noteq> i \<and> email x = email r') (rows db)
              then (Rejected UniqueConstraintError, db)
              else (Resolved r',
                    db\<lparr>rows := map (\<lambda>x. if ident x = i then r' else x) (rows db),
                       clock := Suc (clock db)\<rparr>))))"

text \<open>
  Modelled from the spec: \<^verbatim>\<open>delete({ where: { id } })\<close> removes the row and returns it; no such row is P2025.
\<close>

definition delegate_delete ::
  "int \<Rightarrow> int collection \<Rightarrow> int user outcome \<times> int collection" where
  "delegate_delete i db =
     (case find (\<lambda>r. ident r = i) (rows db) of
        None \<Rightarrow> (Rejected RecordNotFoundError, db)
      | Some r \<Rightarrow> (Resolved r, db\<lparr>rows := filter (\<lambda>x. ident x \<noteq> i) (rows db)\<rparr>))"

text \<open>
  Modelled from the spec: the delegate \<^verbatim>\<open>prisma.user\<close> of \<^verbatim>\<open>config/prismaDb.js\<close> over this table.
\<close>

definition prismaUser :: "int collection prisma_user" where
  "prismaUser =
     \<lparr>user_findMany = delegate_findMany,
      user_findUnique = delegate_findUnique,
      user_create = delegate_create,
      user_update = delegate_update,
      user_delete = delegate_delete\<rparr>"

text \<open>A store with no record yet.\<close>

definition empty_store :: "'i collection" where
  "empty_store = \<lparr>rows = [], counter = 1, clock = 0\<rparr>"

text \<open>
  The value of one of the four client fields of a record, as it appears in JSON.
\<close>

definition user_field :: "string \<Rightarrow> 'i user \<Rightarrow> jsval" where
  "user_field k u =
     (if k = ''name'' then Str (name u)
      else if k = ''email'' then Str (email u)
      else if k = ''age'' then (case age u of None \<Rightarrow> Null | Some n \<Rightarrow> Num n)
      else if k = ''role'' then (case role u of None \<Rightarrow> Null | Some r \<Rightarrow> Str r)
      else Undefined)"


section \<open>Predicates and sample data used in the statements\<close>

text \<open>The decimal representation of an integer: digits, with an optional minus sign.\<close>

definition is_integer_text :: "string \<Rightarrow> bool" where
  "is_integer_text s = all_digits 10 (if take 1 s = ''-'' then drop 1 s else s)"

definition user12 :: "int user" where
  "user12 =
     \<lparr>ident = 12, name = ''Bo'', email = ''bo@ex.com'', age = Some 30,
      role = Some ''USER'', createdAt = 0, updatedAt = 0\<rparr>"

definition store12 :: "int collection" where
  "store12 = \<lparr>rows = [user12], counter = 13, clock = 1\<rparr>"

text \<open>Sample requests and stores.\<close>

definition docAnn :: "string user" where
  "docAnn =
     \<lparr>ident = ''000000000000000000000001'', name = ''Ann'', email = ''ann@ex.com'',
      age = None, role = Some ''USER'', createdAt = 0, updatedAt = 0\<rparr>"

definition storeAnn :: "string collection" where
  "storeAnn = \<lparr>rows = [docAnn], counter = 2, clock = 1\<rparr>"

definition get_abc :: request where
  "get_abc = \<lparr>params_id = ''abc'', body = Map.empty\<rparr>"






definition post_ann :: request where
  "post_ann =
     \<lparr>params_id = [], body = [''name'' \<mapsto> Str ''Ann'', ''email'' \<mapsto> Str ''ann@ex.com'']\<rparr>"


text \<open>
  A new document whose name, age and role pass the validators of the User schema,
  whatever its email.
\<close>

definition valid_besides_email :: "js_object \<Rightarrow> bool" where
  "valid_besides_email b =
     (\<not> isl (name_path (field b ''name'')) \<and> \<not> isl (age_path (field b ''age'')) \<and>
      \<not> isl (role_path (role_default (field b ''role''))))"

definition post_ann_mixed :: request where
  "post_ann_mixed =
     \<lparr>params_id = [], body = [''name'' \<mapsto> Str ''Ann'', ''email'' \<mapsto> Str ''Ann@Ex.com'']\<rparr>"

text \<open>The record that a success body carries, if it carries one.\<close>

definition returned_user :: "'i response \<Rightarrow> 'i user option" where
  "returned_user r = (case data r of Some (User u) \<Rightarrow> Some u | _ \<Rightarrow> None)"

text \<open>The four fields a client may send.\<close>

definition client_fields :: "string list" where
  "client_fields = [''name'', ''email'', ''age'', ''role'']"

definition put_age_26 :: request where
  "put_age_26 = \<lparr>params_id = ''000000000000000000000001'', body = [''age'' \<mapsto> Num 26]\<rparr>"

definition put_age_26_postgres :: request where
  "put_age_26_postgres = \<lparr>params_id = ''12'', body = [''age'' \<mapsto> Num 26]\<rparr>"



section \<open>Evaluation rules\<close>

lemmas parseInt_eval =
  parseInt_def parseInt_str_def isWhiteSpace_def radix_digits_def digits_value_def digit_of_def

lemma parseInt_Str [simp]: "parseInt (Str s) = parseInt_str s"
  by (simp add: parseInt_def)

lemmas regex_eval =
  email_pattern_def dotted_words_def plus_def opt_def word_char_def digit_of_def

lemmas path_eval =
  field_def name_path_def email_path_def age_path_def role_path_def role_default_def
  castString_def trim_def isWhiteSpace_def toLowerCase_def lower_char_def


section \<open>What \<^verbatim>\<open>parseInt\<close> reads\<close>

text \<open>
  A string of decimal digits is read as the number it denotes, with or without a minus
  sign in front, and the text of an integer is read back as that integer.
\<close>

lemma digit_not_space: "digit_of c < 36 \<Longrightarrow> \<not> isWhiteSpace c"
  by (auto simp: isWhiteSpace_def digit_of_def)

lemma digit_not_sign: "digit_of c < 36 \<Longrightarrow> c \<noteq> CHR ''-'' \<and> c \<noteq> CHR ''+''"
  by (auto simp: digit_of_def)

lemma digit_of_x: "digit_of CHR ''x'' = 33" "digit_of CHR ''X'' = 33"
  by (simp_all add: digit_of_def)

lemma decimal_not_hex:
  assumes "list_all (\<lambda>c. digit_of c < 10) ds"
  shows "take 2 ds \<noteq> ''0x'' \<and> take 2 ds \<noteq> ''0X''"
proof (cases ds)
  case Nil
  then show ?thesis by simp
next
  case (Cons c cs)
  show ?thesis
  proof (cases cs)
    case Nil
    with Cons show ?thesis by simp
  next
    case (Cons d ds')
    with \<open>ds = c # cs\<close> assms have "digit_of d < 10" by simp
    then have "d \<noteq> CHR ''x'' \<and> d \<noteq> CHR ''X''"
      using digit_of_x by auto
    with Cons \<open>ds = c # cs\<close> show ?thesis by simp
  qed
qed

lemma radix_digits_all: "list_all (\<lambda>c. digit_of c < R) ds \<Longrightarrow> radix_digits R ds = ds"
  by (simp add: radix_digits_def takeWhile_eq_all_conv list_all_iff)

lemma parseInt_str_digits:
  assumes "all_digits 10 ds"
  shows "parseInt_str ds = Some (int (digits_value 10 ds))"
proof -
  from assms obtain c cs where ds: "ds = c # cs" and c: "digit_of c < 10"
    and all: "list_all (\<lambda>c. digit_of c < 10) ds"
    by (cases ds) (auto simp: all_digits_def)
  from c have ns: "\<not> isWhiteSpace c" and sg: "c \<noteq> CHR ''-''" "c \<noteq> CHR ''+''"
    using digit_not_space [of c] digit_not_sign [of c] by auto
  have drop: "dropWhile isWhiteSpace ds = ds"
    using ds ns by simp
  have t1: "take (Suc 0) ds = [c]"
    using ds by simp
  have ne: "ds \<noteq> []"
    using ds by simp
  show ?thesis
    using decimal_not_hex [OF all] sg ne
    by (simp add: parseInt_str_def drop t1 radix_digits_all [OF all] Let_def)
qed

lemma parseInt_str_minus_digits:
  assumes "all_digits 10 ds"
  shows "parseInt_str (CHR ''-'' # ds) = Some (- int (digits_value 10 ds))"
proof -
  from assms have all: "list_all (\<lambda>c. digit_of c < 10) ds" and ne: "ds \<noteq> []"
    by (auto simp: all_digits_def)
  have ns: "\<not> isWhiteSpace CHR ''-''"
    by (simp add: isWhiteSpace_def)
  show ?thesis
    using decimal_not_hex [OF all] radix_digits_all [OF all] ne
    by (simp add: parseInt_str_def ns Let_def)
qed

lemma digits_value_snoc:
  "digits_value R (xs @ [c]) = digits_value R xs * R + digit_of c"
  by (simp add: digits_value_def)

lemma digit_of_digit_char: "d < 16 \<Longrightarrow> digit_of (digit_char d) = d"
proof -
  assume "d < 16"
  then have "d = 0 \<or> d = 1 \<or> d = 2 \<or> d = 3 \<or> d = 4 \<or> d = 5 \<or> d = 6 \<or> d = 7
      \<or> d = 8 \<or> d = 9 \<or> d = 10 \<or> d = 11 \<or> d = 12 \<or> d = 13 \<or> d = 14 \<or> d = 15"
    by arith
  then show ?thesis
    by (auto simp: digit_char_def digit_of_def)
qed

lemma radix_text_digits:
  "2 \<le> R \<Longrightarrow> R \<le> 16 \<Longrightarrow>
     radix_text R n \<noteq> [] \<and> list_all (\<lambda>c. digit_of c < R) (radix_text R n)
     \<and> digits_value R (radix_text R n) = n"
proof (induction R n rule: radix_text.induct)
  case (1 R n)
  show ?case
  proof (cases "n < R")
    case True
    with 1 show ?thesis
      by (simp add: radix_text.simps [of R n] digit_of_digit_char digits_value_def)
  next
    case False
    with 1 have ih: "radix_text R (n div R) \<noteq> []"
      "list_all (\<lambda>c. digit_of c < R) (radix_text R (n div R))"
      "digits_value R (radix_text R (n div R)) = n div R"
      by auto
    have m: "n mod R < 16" "n mod R < R"
      using 1(2,3) by (auto intro: less_le_trans [of "n mod R" R 16])
    from False 1(2) have eq: "radix_text R n = radix_text R (n div R) @ [digit_char (n mod R)]"
      by (simp add: radix_text.simps [of R n])
    show ?thesis
      using ih m by (simp add: eq digits_value_snoc digit_of_digit_char)
  qed
qed

lemma parseInt_Num: "parseInt (Num n) = Some n"
proof (cases "n < 0")
  case True
  have "all_digits 10 (radix_text 10 (nat (- n)))"
    using radix_text_digits [of 10 "nat (- n)"] by (simp add: all_digits_def)
  from parseInt_str_minus_digits [OF this] True show ?thesis
    using radix_text_digits [of 10 "nat (- n)"]
    by (simp add: parseInt_def int_to_string_def)
next
  case False
  have "all_digits 10 (radix_text 10 (nat n))"
    using radix_text_digits [of 10 "nat n"] by (simp add: all_digits_def)
  from parseInt_str_digits [OF this] False show ?thesis
    using radix_text_digits [of 10 "nat n"]
    by (simp add: parseInt_def int_to_string_def)
qed

section \<open>Identifier parsing in the relational adapter\<close>

text \<open>
  C2 (as amended). For every id string from which \<^verbatim>\<open>parseInt\<close> reads no integer (after
  leading white space, a sign and a \<^verbatim>\<open>0x\<close> prefix there is no digit), the relational
  getById, update and delete answer HTTP 400 with
  \<^verbatim>\<open>{status:"error", message:"Invalid user ID"}\<close>, whatever the store is and leaving its
  state as it was: the store is not called.
\<close>

theorem invalid_id_postgres:
  assumes "parseInt_str (params_id req) = None"
  shows "getUserByIdFromPostgres prisma req s = (json_error 400 ''Invalid user ID'', s)
       \<and> updateUserInPostgres prisma req s = (json_error 400 ''Invalid user ID'', s)
       \<and> deleteUserFromPostgres prisma req s = (json_error 400 ''Invalid user ID'', s)"
  using assms
  by (simp add: getUserByIdFromPostgres_def updateUserInPostgres_def
      deleteUserFromPostgres_def isNaN_def)

theorem invalid_id_postgres_witness:
  "parseInt_str ''abc'' = None
   \<and> getUserByIdFromPostgres prismaUser \<lparr>params_id = ''abc'', body = Map.empty\<rparr> store12
       = (json_error 400 ''Invalid user ID'', store12)
   \<and> updateUserInPostgres prismaUser \<lparr>params_id = ''abc'', body = Map.empty\<rparr> store12
       = (json_error 400 ''Invalid user ID'', store12)
   \<and> deleteUserFromPostgres prismaUser \<lparr>params_id = ''abc'', body = Map.empty\<rparr> store12
       = (json_error 400 ''Invalid user ID'', store12)"
proof -
  have h: "parseInt_str (params_id \<lparr>params_id = ''abc'', body = Map.empty\<rparr>) = None"
    by (simp add: parseInt_eval)
  from invalid_id_postgres [OF h, of prismaUser store12] h show ?thesis by simp
qed

text \<open>
  The claim as stated fails: \<^verbatim>\<open>"12abc"\<close> is not the decimal representation of an
  integer, yet \<^verbatim>\<open>parseInt\<close> reads 12 from it, the store is asked for record 12 and
  \<^verbatim>\<open>GET /api/users/postgres/12abc\<close> answers 200 with that record.
\<close>

theorem leading_digits_id_counterexample:
  "\<not> is_integer_text ''12abc''
   \<and> getUserByIdFromPostgres prismaUser \<lparr>params_id = ''12abc'', body = Map.empty\<rparr> store12
       = (json_user 200 None user12, store12)"
  by (simp add: is_integer_text_def all_digits_def getUserByIdFromPostgres_def parseInt_eval
      isNaN_def prismaUser_def delegate_findUnique_def store12_def user12_def)

section \<open>Listing\<close>

text \<open>
  C9. \<^verbatim>\<open>listAll\<close> on either adapter fails only when the store call fails, and then with
  HTTP 500. When the store call returns its records the answer is HTTP 200 with
  \<^verbatim>\<open>{status:"success", results: n, data:{users}}\<close> where \<open>n\<close> is the number of records
  returned. The stores modelled here return all their records, so a store with no
  record answers with the empty list and \<^verbatim>\<open>results: 0\<close>.
\<close>

theorem listAll_outcome:
  "(case User_find M s of
      (Resolved users, s') \<Rightarrow>
        getAllUsersFromMongo M req s =
          (\<lparr>http_status = 200, status = ''success'', message = None,
            results = Some (length users), data = Some (Users users), error = None\<rparr>, s')
    | (Rejected e, s') \<Rightarrow>
        getAllUsersFromMongo M req s =
          (\<lparr>http_status = 500, status = ''error'',
            message = Some ''Failed to fetch users from MongoDB'', results = None,
            data = None, error = Some (error_message e)\<rparr>, s'))
   \<and> (case user_findMany P t of
      (Resolved users, t') \<Rightarrow>
        getAllUsersFromPostgres P req t =
          (\<lparr>http_status = 200, status = ''success'', message = None,
            results = Some (length users), data = Some (Users users), error = None\<rparr>, t')
    | (Rejected e, t') \<Rightarrow>
        getAllUsersFromPostgres P req t =
          (\<lparr>http_status = 500, status = ''error'',
            message = Some ''Failed to fetch users from PostgreSQL'', results = None,
            data = None, error = Some (error_message e)\<rparr>, t'))
   \<and> getAllUsersFromMongo UserModel req db =
        (\<lparr>http_status = 200, status = ''success'', message = None,
          results = Some (length (rows db)), data = Some (Users (rows db)), error = None\<rparr>, db)
   \<and> getAllUsersFromPostgres prismaUser req tb =
        (\<lparr>http_status = 200, status = ''success'', message = None,
          results = Some (length (rows tb)), data = Some (Users (rows tb)), error = None\<rparr>, tb)
   \<and> getAllUsersFromMongo UserModel req empty_store =
        (\<lparr>http_status = 200, status = ''success'', message = None,
          results = Some 0, data = Some (Users []), error = None\<rparr>, empty_store)
   \<and> getAllUsersFromPostgres prismaUser req empty_store =
        (\<lparr>http_status = 200, status = ''success'', message = None,
          results = Some 0, data = Some (Users []), error = None\<rparr>, empty_store)"
  by (simp add: getAllUsersFromMongo_def getAllUsersFromPostgres_def json_users_def
      json_failure_def UserModel_def prismaUser_def Model_find_def delegate_findMany_def
      empty_store_def split: prod.splits outcome.splits)

section \<open>Identifiers in the document adapter\<close>

text \<open>
  C1 (as amended). The document adapter has no check of the id. For every request to
  getById, update or delete whose id is not a well-formed ObjectId, the store client
  rejects the id with a cast error and the answer is HTTP 500 with
  \<^verbatim>\<open>{status:"error", message:"Failed to ... MongoDB", error: detail}\<close>, the store left
  as it was. Whatever the store client does, none of the three answers HTTP 400.
\<close>

theorem malformed_objectid_mongo:
  assumes "\<not> isValidObjectId (params_id req)"
  shows "getUserByIdFromMongo UserModel req db =
           (\<lparr>http_status = 500, status = ''error'',
             message = Some ''Failed to fetch user from MongoDB'', results = None,
             data = None, error = Some (error_message (CastError (params_id req)))\<rparr>, db)
       \<and> updateUserInMongo UserModel req db =
           (\<lparr>http_status = 500, status = ''error'',
             message = Some ''Failed to update user in MongoDB'', results = None,
             data = None, error = Some (error_message (CastError (params_id req)))\<rparr>, db)
       \<and> deleteUserFromMongo UserModel req db =
           (\<lparr>http_status = 500, status = ''error'',
             message = Some ''Failed to delete user from MongoDB'', results = None,
             data = None, error = Some (error_message (CastError (params_id req)))\<rparr>, db)
       \<and> http_status (fst (getUserByIdFromMongo M req s)) \<noteq> 400
       \<and> http_status (fst (updateUserInMongo M req s)) \<noteq> 400
       \<and> http_status (fst (deleteUserFromMongo M req s)) \<noteq> 400"
  using assms
  by (simp add: getUserByIdFromMongo_def updateUserInMongo_def deleteUserFromMongo_def
      UserModel_def Model_findById_def Model_findByIdAndUpdate_def Model_findByIdAndDelete_def
      json_failure_def json_error_def json_user_def Let_def
      split: prod.splits outcome.splits option.splits)

theorem malformed_objectid_mongo_witness:
  "\<not> isValidObjectId (params_id get_abc)
   \<and> getUserByIdFromMongo UserModel get_abc storeAnn =
        (\<lparr>http_status = 500, status = ''error'',
          message = Some ''Failed to fetch user from MongoDB'', results = None,
          data = None, error = Some ''Cast to ObjectId failed for value abc''\<rparr>, storeAnn)
   \<and> updateUserInMongo UserModel get_abc storeAnn =
        (\<lparr>http_status = 500, status = ''error'',
          message = Some ''Failed to update user in MongoDB'', results = None,
          data = None, error = Some ''Cast to ObjectId failed for value abc''\<rparr>, storeAnn)
   \<and> deleteUserFromMongo UserModel get_abc storeAnn =
        (\<lparr>http_status = 500, status = ''error'',
          message = Some ''Failed to delete user from MongoDB'', results = None,
          data = None, error = Some ''Cast to ObjectId failed for value abc''\<rparr>, storeAnn)"
proof -
  have h: "\<not> isValidObjectId (params_id get_abc)"
    by (simp add: get_abc_def isValidObjectId_def)
  have p: "params_id get_abc = ''abc''"
    by (simp add: get_abc_def)
  from malformed_objectid_mongo [OF h, of storeAnn UserModel storeAnn] h
  show ?thesis by (simp add: CastError_def p)
qed

text \<open>
  The claim as stated fails: \<^verbatim>\<open>GET /api/users/mongo/abc\<close> is answered with HTTP 500 and
  the message of the catch block, not with HTTP 400 and \<^verbatim>\<open>"Invalid user ID"\<close>.
\<close>

theorem malformed_objectid_counterexample:
  "\<not> isValidObjectId (params_id get_abc)
   \<and> http_status (fst (getUserByIdFromMongo UserModel get_abc storeAnn)) = 500
   \<and> message (fst (getUserByIdFromMongo UserModel get_abc storeAnn))
       = Some ''Failed to fetch user from MongoDB''"
  by (simp add: get_abc_def isValidObjectId_def getUserByIdFromMongo_def UserModel_def
      Model_findById_def json_failure_def)

section \<open>Validation on create\<close>





section \<open>Records that do not exist\<close>






section \<open>Creating a record\<close>








lemma replicate_23: "replicate 23 c = [c, c, c, c, c, c, c, c, c, c, c, c, c, c, c, c, c, c, c, c, c, c, c]"
  by (simp add: numeral_eq_Suc)

lemma objectId_1: "objectId (Suc 0) = ''000000000000000000000001''"
  by (simp add: objectId_def radix_text.simps digit_char_def replicate_23)





section \<open>Email uniqueness\<close>

lemma create_errors_Nil:
  "create_errors b = [] \<longleftrightarrow>
     \<not> isl (email_path (field b ''email'')) \<and> valid_besides_email b"
  by (cases "name_path (field b ''name'')"; cases "email_path (field b ''email'')";
      cases "age_path (field b ''age'')"; cases "role_path (role_default (field b ''role''))")
    (auto simp: create_errors_def valid_besides_email_def)

lemma email_path_Inr:
  "\<not> isl (email_path (Str e)) \<Longrightarrow>
     email_path (Str e) = Inr (Str (trim (toLowerCase e))) \<and> e \<noteq> []"
  by (auto simp: email_path_def castString_def Let_def trim_def toLowerCase_def
      split: if_splits)

lemma email_path_lower:
  "toLowerCase e1 = toLowerCase e2 \<Longrightarrow> email_path (Str e1) = email_path (Str e2)"
  by (simp add: email_path_def castString_def)

lemma list_ex_append_last: "P x \<Longrightarrow> list_ex P (xs @ [x])"
  by (induction xs) auto

lemma mongo_created:
  assumes "createUserInMongo UserModel req db = (r, db')" and "http_status r = 201"
    and "field (body req) ''email'' = Str e"
  shows "\<not> isl (email_path (Str e))"
    and "list_ex (\<lambda>d. email d = trim (toLowerCase e)) (rows db')"
proof -
  let ?obj = "[''name'' \<mapsto> field (body req) ''name'', ''email'' \<mapsto> field (body req) ''email'',
      ''age'' \<mapsto> field (body req) ''age'', ''role'' \<mapsto> field (body req) ''role'']"
  have t: "truthy (field (body req) ''name'') \<and> truthy (field (body req) ''email'')"
    using assms(1,2)
    by (auto simp: createUserInMongo_def Let_def json_error_def split: if_splits)
  have c: "create_errors ?obj = []"
    using assms(1,2) t
    by (auto simp: createUserInMongo_def UserModel_def Model_create_def Let_def
        json_error_def json_failure_def split: if_splits)
  then show ok: "\<not> isl (email_path (Str e))"
    using assms(3) by (simp add: create_errors_Nil field_def)
  from email_path_Inr [OF ok] have ep: "email_path (Str e) = Inr (Str (trim (toLowerCase e)))"
    by simp
  show "list_ex (\<lambda>d. email d = trim (toLowerCase e)) (rows db')"
    using assms t c ep
    by (auto simp: createUserInMongo_def UserModel_def Model_create_def Let_def
        json_error_def json_failure_def field_def [of "_(_ \<mapsto> _)"] stored_def text_of_def
        list_ex_append_last split: if_splits)
qed

lemma mongo_duplicate:
  assumes first: "createUserInMongo UserModel req1 db = (r1, db1)" "http_status r1 = 201"
    and e1: "field (body req1) ''email'' = Str e1"
    and e2: "field (body req2) ''email'' = Str e2" "toLowerCase e1 = toLowerCase e2"
    and name2: "truthy (field (body req2) ''name'')"
    and valid2: "valid_besides_email (body req2)"
  shows "createUserInMongo UserModel req2 db1 = (json_error 400 ''Email already exists'', db1)"
proof -
  let ?obj = "[''name'' \<mapsto> field (body req2) ''name'', ''email'' \<mapsto> field (body req2) ''email'',
      ''age'' \<mapsto> field (body req2) ''age'', ''role'' \<mapsto> field (body req2) ''role'']"
  note m = mongo_created [OF first e1]
  have same: "email_path (Str e2) = email_path (Str e1)"
    using email_path_lower [OF e2(2)] by simp
  with m(1) have ok2: "\<not> isl (email_path (Str e2))"
    by simp
  from email_path_Inr [OF ok2]
  have ep: "email_path (Str e2) = Inr (Str (trim (toLowerCase e2)))" and ne: "e2 \<noteq> []"
    by simp_all
  have v: "valid_besides_email ?obj"
    using valid2 by (simp add: valid_besides_email_def field_def)
  have c: "create_errors ?obj = []"
    using ok2 v e2(1) by (simp add: create_errors_Nil field_def [of "_(_ \<mapsto> _)"])
  have dup: "list_ex (\<lambda>d. email d = trim (toLowerCase e2)) (rows db1)"
    using m(2) e2(2) by simp
  show ?thesis
    using name2 e2(1) ne c ep dup
    by (simp add: createUserInMongo_def UserModel_def Model_create_def Let_def
        field_def [of "_(_ \<mapsto> _)"] stored_def text_of_def DuplicateKeyError_def)
qed

lemma postgres_created:
  assumes "createUserInPostgres prismaUser req tb = (r, tb')" and "http_status r = 201"
  shows "is_text (field (body req) ''email'')"
    and "list_ex (\<lambda>x. Some (email x) = text_of (field (body req) ''email'')) (rows tb')"
proof -
  have t: "truthy (field (body req) ''name'') \<and> truthy (field (body req) ''email'')"
    using assms
    by (auto simp: createUserInPostgres_def Let_def json_error_def split: if_splits)
  have ok: "create_data_ok (createData (body req))"
    using assms t
    by (auto simp: createUserInPostgres_def prismaUser_def delegate_create_def Let_def
        json_error_def json_failure_def split: if_splits)
  then show tx: "is_text (field (body req) ''email'')"
    by (simp add: create_data_ok_def createData_def field_def [of "_(_ \<mapsto> _)"] Let_def)
  then obtain e where e: "field (body req) ''email'' = Str e"
    by (cases "field (body req) ''email''") (auto simp: is_text_def)
  show "list_ex (\<lambda>x. Some (email x) = text_of (field (body req) ''email'')) (rows tb')"
    using assms t ok e
    by (auto simp: createUserInPostgres_def prismaUser_def delegate_create_def Let_def
        json_error_def json_failure_def createData_def field_def [of "_(_ \<mapsto> _)"]
        text_of_def list_ex_append_last split: if_splits)
qed

lemma postgres_duplicate:
  assumes first: "createUserInPostgres prismaUser q1 tb = (p1, tb1)" "http_status p1 = 201"
    and same: "field (body q2) ''email'' = field (body q1) ''email''"
    and name2: "truthy (field (body q2) ''name'')"
    and ok2: "create_data_ok (createData (body q2))"
  shows "createUserInPostgres prismaUser q2 tb1 = (json_error 400 ''Email already exists'', tb1)"
proof -
  note p = postgres_created [OF first]
  from p(1) obtain e where e: "field (body q1) ''email'' = Str e"
    by (cases "field (body q1) ''email''") (auto simp: is_text_def)
  have t: "truthy (field (body q1) ''email'')"
    using first
    by (auto simp: createUserInPostgres_def Let_def json_error_def split: if_splits)
  have dup: "list_ex (\<lambda>x. Some (email x) = text_of (field (createData (body q2)) ''email''))
      (rows tb1)"
    using p(2) same by (simp add: createData_def field_def [of "_(_ \<mapsto> _)"] Let_def)
  show ?thesis
    using name2 t same ok2 dup
    by (simp add: createUserInPostgres_def prismaUser_def delegate_create_def Let_def
        UniqueConstraintError_def)
qed

lemma post_ann_mixed_mongo_result:
  "createUserInMongo UserModel post_ann_mixed empty_store =
     (json_user 201 (Some ''User created successfully'') docAnn, storeAnn)"
  by (simp add: createUserInMongo_def UserModel_def Model_create_def create_errors_def
      path_eval regex_eval stored_def text_of_def int_of_def objectId_1 empty_store_def
      docAnn_def storeAnn_def post_ann_mixed_def json_user_def Let_def)

lemma post_ann_valid: "valid_besides_email (body post_ann)"
  by (simp add: valid_besides_email_def post_ann_def path_eval)

lemma post_ann_postgres_result:
  "createUserInPostgres prismaUser post_ann empty_store =
     (json_user 201 (Some ''User created successfully'')
        \<lparr>ident = 1, name = ''Ann'', email = ''ann@ex.com'', age = None,
         role = Some ''USER'', createdAt = 0, updatedAt = 0\<rparr>,
      \<lparr>rows = [\<lparr>ident = 1, name = ''Ann'', email = ''ann@ex.com'', age = None,
         role = Some ''USER'', createdAt = 0, updatedAt = 0\<rparr>], counter = 2, clock = 1\<rparr>)"
  by (simp add: createUserInPostgres_def prismaUser_def delegate_create_def create_data_ok_def
      createData_def field_def js_or_def is_text_def is_optional_int_def is_optional_role_def
      role_default_def text_of_def int_of_def empty_store_def post_ann_def json_user_def Let_def)

lemma post_ann_data_ok: "create_data_ok (createData (body post_ann))"
  by (simp add: create_data_ok_def createData_def field_def js_or_def is_text_def
      is_optional_int_def is_optional_role_def post_ann_def Let_def)

text \<open>
  C4 (as amended). The document store trims and lowercases an email before it stores
  it: when a create has succeeded there, a following create whose email is equal to the
  first under case-insensitive comparison, and whose payload is otherwise valid, answers
  HTTP 400 with message \<^verbatim>\<open>"Email already exists"\<close>. The relational adapter stores the
  email as it was sent: a following create answers HTTP 400 with that message when its
  email is the same text as the first's.
\<close>

theorem duplicate_email:
  "(createUserInMongo UserModel req1 db = (r1, db1) \<and> http_status r1 = 201
      \<and> field (body req1) ''email'' = Str e1 \<and> field (body req2) ''email'' = Str e2
      \<and> toLowerCase e1 = toLowerCase e2
      \<and> truthy (field (body req2) ''name'') \<and> valid_besides_email (body req2) \<longrightarrow>
    createUserInMongo UserModel req2 db1 = (json_error 400 ''Email already exists'', db1))
   \<and> (createUserInPostgres prismaUser q1 tb = (p1, tb1) \<and> http_status p1 = 201
      \<and> field (body q2) ''email'' = field (body q1) ''email''
      \<and> truthy (field (body q2) ''name'') \<and> create_data_ok (createData (body q2)) \<longrightarrow>
    createUserInPostgres prismaUser q2 tb1 = (json_error 400 ''Email already exists'', tb1))"
  using mongo_duplicate [of req1 db r1 db1 e1 req2 e2] postgres_duplicate [of q1 tb p1 tb1 q2]
  by blast

theorem duplicate_email_witness:
  "createUserInMongo UserModel post_ann_mixed empty_store =
     (json_user 201 (Some ''User created successfully'') docAnn, storeAnn)
   \<and> http_status (json_user 201 (Some ''User created successfully'') docAnn) = 201
   \<and> field (body post_ann_mixed) ''email'' = Str ''Ann@Ex.com''
   \<and> field (body post_ann) ''email'' = Str ''ann@ex.com''
   \<and> toLowerCase ''Ann@Ex.com'' = toLowerCase ''ann@ex.com''
   \<and> truthy (field (body post_ann) ''name'') \<and> valid_besides_email (body post_ann)
   \<and> createUserInMongo UserModel post_ann storeAnn
       = (json_error 400 ''Email already exists'', storeAnn)
   \<and> http_status (fst (createUserInPostgres prismaUser post_ann empty_store)) = 201
   \<and> create_data_ok (createData (body post_ann))
   \<and> createUserInPostgres prismaUser post_ann
        (snd (createUserInPostgres prismaUser post_ann empty_store))
       = (json_error 400 ''Email already exists'',
          snd (createUserInPostgres prismaUser post_ann empty_store))"
proof -
  have s1: "http_status (json_user 201 (Some ''User created successfully'') docAnn) = 201"
    by (simp add: json_user_def)
  have e1: "field (body post_ann_mixed) ''email'' = Str ''Ann@Ex.com''"
    by (simp add: post_ann_mixed_def field_def)
  have e2: "field (body post_ann) ''email'' = Str ''ann@ex.com''"
    by (simp add: post_ann_def field_def)
  have lo: "toLowerCase ''Ann@Ex.com'' = toLowerCase ''ann@ex.com''"
    by (simp add: toLowerCase_def lower_char_def)
  have n2: "truthy (field (body post_ann) ''name'')"
    by (simp add: post_ann_def field_def)
  have p1: "createUserInPostgres prismaUser post_ann empty_store =
      (fst (createUserInPostgres prismaUser post_ann empty_store),
       snd (createUserInPostgres prismaUser post_ann empty_store))"
    by simp
  have s2: "http_status (fst (createUserInPostgres prismaUser post_ann empty_store)) = 201"
    by (simp add: post_ann_postgres_result json_user_def)
  note inst = duplicate_email [of post_ann_mixed empty_store
      "json_user 201 (Some ''User created successfully'') docAnn" storeAnn "''Ann@Ex.com''"
      post_ann "''ann@ex.com''" post_ann empty_store
      "fst (createUserInPostgres prismaUser post_ann empty_store)"
      "snd (createUserInPostgres prismaUser post_ann empty_store)" post_ann]
  from inst post_ann_mixed_mongo_result s1 e1 e2 lo n2 post_ann_valid p1 s2 post_ann_data_ok
  show ?thesis by blast
qed

text \<open>
  The claim as stated fails on the relational adapter: after a create with
  \<^verbatim>\<open>Ann@Ex.com\<close>, stored and returned with its capitals, a create with \<^verbatim>\<open>ann@ex.com\<close>
  answers 201 and the table holds both.
\<close>

theorem mixed_case_email_counterexample:
  "toLowerCase ''Ann@Ex.com'' = toLowerCase ''ann@ex.com''
   \<and> createUserInPostgres prismaUser post_ann_mixed empty_store =
       (json_user 201 (Some ''User created successfully'')
          \<lparr>ident = 1, name = ''Ann'', email = ''Ann@Ex.com'', age = None,
           role = Some ''USER'', createdAt = 0, updatedAt = 0\<rparr>,
        \<lparr>rows = [\<lparr>ident = 1, name = ''Ann'', email = ''Ann@Ex.com'', age = None,
           role = Some ''USER'', createdAt = 0, updatedAt = 0\<rparr>], counter = 2, clock = 1\<rparr>)
   \<and> http_status (fst (createUserInPostgres prismaUser post_ann
        \<lparr>rows = [\<lparr>ident = 1, name = ''Ann'', email = ''Ann@Ex.com'', age = None,
           role = Some ''USER'', createdAt = 0, updatedAt = 0\<rparr>], counter = 2, clock = 1\<rparr>))
       = 201
   \<and> map email (rows (snd (createUserInPostgres prismaUser post_ann
        \<lparr>rows = [\<lparr>ident = 1, name = ''Ann'', email = ''Ann@Ex.com'', age = None,
           role = Some ''USER'', createdAt = 0, updatedAt = 0\<rparr>], counter = 2, clock = 1\<rparr>)))
       = [''Ann@Ex.com'', ''ann@ex.com'']"
  by (simp add: createUserInPostgres_def prismaUser_def delegate_create_def create_data_ok_def
      createData_def field_def js_or_def is_text_def is_optional_int_def is_optional_role_def
      role_default_def text_of_def int_of_def empty_store_def post_ann_def post_ann_mixed_def
      json_user_def Let_def toLowerCase_def lower_char_def)

section \<open>Partial update\<close>

lemma buildUpdateData_apply:
  "buildUpdateData b k =
     (if k \<in> set client_fields \<and> truthy (field b k)
      then Some (if k = ''age'' then number (parseInt (field b k)) else field b k)
      else None)"
  by (simp add: buildUpdateData_def updateData_step_def client_fields_def Let_def)

lemma field_absent: "b k = None \<Longrightarrow> field b k = Undefined"
  by (simp add: field_def)

lemma find_map_replace:
  "find (\<lambda>x. f x = c) xs = Some d \<Longrightarrow> f d' = c \<Longrightarrow>
     find (\<lambda>x. f x = c) (map (\<lambda>x. if f x = c then d' else x) xs) = Some d'"
  by (induction xs) (auto split: if_splits)

lemma find_ident: "find (\<lambda>x. f x = c) xs = Some d \<Longrightarrow> f d = c"
  by (induction xs) (auto split: if_splits)

lemma user_field_simps:
  "user_field ''name'' u = Str (name u)"
  "user_field ''email'' u = Str (email u)"
  "user_field ''age'' u = (case age u of None \<Rightarrow> Null | Some n \<Rightarrow> Num n)"
  "user_field ''role'' u = (case role u of None \<Rightarrow> Null | Some r \<Rightarrow> Str r)"
  by (simp_all add: user_field_def)

lemma client_field_cases:
  assumes "k \<in> set client_fields"
  obtains "k = ''name''" | "k = ''email''" | "k = ''age''" | "k = ''role''"
  using assms by (auto simp: client_fields_def)

lemma apply_update_field:
  assumes "k \<in> set client_fields" and "upd k = None"
  shows "user_field k (apply_update (set_path upd ''name'' name_path)
       (set_path upd ''email'' email_path) (set_path upd ''age'' age_path)
       (set_path upd ''role'' role_path) t d) = user_field k d"
  using assms(1)
proof (cases rule: client_field_cases)
  case 1
  with assms(2) show ?thesis
    by (simp add: user_field_simps apply_update_def set_path_def)
next
  case 2
  with assms(2) show ?thesis
    by (simp add: user_field_simps apply_update_def set_path_def)
next
  case 3
  with assms(2) show ?thesis
    by (simp add: user_field_simps apply_update_def set_path_def)
next
  case 4
  with assms(2) show ?thesis
    by (simp add: user_field_simps apply_update_def set_path_def)
qed

lemma apply_update_ident [simp]: "ident (apply_update n e a r t d) = ident d"
  by (simp add: apply_update_def)

lemma apply_data_ident [simp]: "ident (apply_data dt t r) = ident r"
  by (simp add: apply_data_def)

lemma sparse_field: "b k = None \<Longrightarrow> field (buildUpdateData b) k = Undefined"
  by (simp add: field_def [of "buildUpdateData b"] buildUpdateData_apply field_absent)

lemma apply_data_field:
  assumes "k \<in> set client_fields" and "b k = None"
  shows "user_field k (apply_data (buildUpdateData b) t r) = user_field k r"
proof -
  have u: "field (buildUpdateData b) k = Undefined"
    using assms(2) by (rule sparse_field)
  from assms(1) show ?thesis
  proof (cases rule: client_field_cases)
  case 1
  with u show ?thesis
    by (simp add: user_field_simps apply_data_def)
next
  case 2
  with u show ?thesis
    by (simp add: user_field_simps apply_data_def)
next
  case 3
  with u show ?thesis
    by (simp add: user_field_simps apply_data_def)
next
  case 4
  with u show ?thesis
    by (simp add: user_field_simps apply_data_def)
qed
qed

lemma mongo_updated:
  assumes "updateUserInMongo UserModel req db = (resp, db')" and "http_status resp = 200"
    and "find (\<lambda>d. ident d = toLowerCase (params_id req)) (rows db) = Some d"
  shows "returned_user resp =
           Some (apply_update (set_path (body req) ''name'' name_path)
             (set_path (body req) ''email'' email_path) (set_path (body req) ''age'' age_path)
             (set_path (body req) ''role'' role_path) (clock db) d)"
    and "rows db' =
           map (\<lambda>x. if ident x = toLowerCase (params_id req)
                    then apply_update (set_path (body req) ''name'' name_path)
                      (set_path (body req) ''email'' email_path)
                      (set_path (body req) ''age'' age_path)
                      (set_path (body req) ''role'' role_path) (clock db) d
                    else x) (rows db)"
  using assms
    find_ident [where f = ident and c = "toLowerCase (params_id req)" and xs = "rows db",
      OF assms(3)]
  by (auto simp: updateUserInMongo_def UserModel_def Model_findByIdAndUpdate_def Let_def
      json_error_def json_failure_def json_user_def returned_user_def split: if_splits)

lemma postgres_updated:
  assumes "updateUserInPostgres prismaUser q tb = (resp, tb')" and "http_status resp = 200"
    and "parseInt_str (params_id q) = Some i"
    and "find (\<lambda>r. ident r = i) (rows tb) = Some r"
  shows "returned_user resp = Some (apply_data (buildUpdateData (body q)) (clock tb) r)"
    and "rows tb' =
           map (\<lambda>x. if ident x = i then apply_data (buildUpdateData (body q)) (clock tb) r
                    else x) (rows tb)"
  using assms
  by (auto simp: updateUserInPostgres_def prismaUser_def delegate_update_def Let_def isNaN_def
      json_error_def json_failure_def json_user_def returned_user_def split: if_splits)

lemma partial_update_mongo:
  assumes "updateUserInMongo UserModel req db = (resp, db')" and "http_status resp = 200"
    and "find (\<lambda>d. ident d = toLowerCase (params_id req)) (rows db) = Some d"
    and "k \<in> set client_fields" and "body req k = None"
  shows "map_option (user_field k) (returned_user resp) = Some (user_field k d)"
    and "map_option (user_field k)
           (find (\<lambda>x. ident x = toLowerCase (params_id req)) (rows db'))
         = Some (user_field k d)"
proof -
  note u = mongo_updated [OF assms(1-3)]
  show "map_option (user_field k) (returned_user resp) = Some (user_field k d)"
    using assms(4,5) by (simp add: u(1) apply_update_field)
  show "map_option (user_field k)
           (find (\<lambda>x. ident x = toLowerCase (params_id req)) (rows db'))
         = Some (user_field k d)"
  proof -
    let ?c = "toLowerCase (params_id req)"
    let ?d = "apply_update (set_path (body req) ''name'' name_path)
        (set_path (body req) ''email'' email_path) (set_path (body req) ''age'' age_path)
        (set_path (body req) ''role'' role_path) (clock db) d"
    have "ident d = ?c"
      by (rule find_ident [where f = ident and c = ?c and xs = "rows db", OF assms(3)])
    then have "ident ?d = ?c"
      by simp
    then have "find (\<lambda>x. ident x = ?c) (map (\<lambda>x. if ident x = ?c then ?d else x) (rows db))
        = Some ?d"
      by (rule find_map_replace [where f = ident and c = ?c and xs = "rows db", OF assms(3)])
    then show ?thesis
      using assms(4,5) by (simp add: u(2) apply_update_field)
  qed
qed

lemma partial_update_postgres:
  assumes "updateUserInPostgres prismaUser q tb = (resp, tb')" and "http_status resp = 200"
    and "parseInt_str (params_id q) = Some i"
    and "find (\<lambda>r. ident r = i) (rows tb) = Some r"
    and "k \<in> set client_fields" and "body q k = None"
  shows "buildUpdateData (body q) k = None"
    and "map_option (user_field k) (returned_user resp) = Some (user_field k r)"
    and "map_option (user_field k) (find (\<lambda>x. ident x = i) (rows tb')) = Some (user_field k r)"
proof -
  note u = postgres_updated [OF assms(1-4)]
  show "buildUpdateData (body q) k = None"
    using assms(6) by (simp add: buildUpdateData_apply field_absent)
  show "map_option (user_field k) (returned_user resp) = Some (user_field k r)"
    using assms(5,6) by (simp add: u(1) apply_data_field)
  show "map_option (user_field k) (find (\<lambda>x. ident x = i) (rows tb')) = Some (user_field k r)"
  proof -
    let ?r = "apply_data (buildUpdateData (body q)) (clock tb) r"
    have "ident r = i"
      by (rule find_ident [where f = ident and c = i and xs = "rows tb", OF assms(4)])
    then have "ident ?r = i"
      by simp
    then have "find (\<lambda>x. ident x = i) (map (\<lambda>x. if ident x = i then ?r else x) (rows tb))
        = Some ?r"
      by (rule find_map_replace [where f = ident and c = i and xs = "rows tb", OF assms(4)])
    then show ?thesis
      using assms(5,6) by (simp add: u(2) apply_data_field)
  qed
qed

lemma put_age_26_mongo_result:
  "updateUserInMongo UserModel put_age_26 storeAnn =
     (json_user 200 (Some ''User updated successfully'') (docAnn\<lparr>age := Some 26, updatedAt := 1\<rparr>),
      \<lparr>rows = [docAnn\<lparr>age := Some 26, updatedAt := 1\<rparr>], counter = 2, clock = 2\<rparr>)"
  by (simp add: updateUserInMongo_def UserModel_def Model_findByIdAndUpdate_def
      update_errors_def set_path_def apply_update_def isValidObjectId_def digit_of_def
      age_path_def stored_def int_of_def toLowerCase_def lower_char_def put_age_26_def
      storeAnn_def docAnn_def json_user_def Let_def)

lemma put_age_26_postgres_result:
  "updateUserInPostgres prismaUser put_age_26_postgres store12 =
     (json_user 200 (Some ''User updated successfully'') (user12\<lparr>age := Some 26, updatedAt := 1\<rparr>),
      \<lparr>rows = [user12\<lparr>age := Some 26, updatedAt := 1\<rparr>], counter = 13, clock = 2\<rparr>)"
  by (simp add: updateUserInPostgres_def prismaUser_def delegate_update_def update_data_ok_def
      buildUpdateData_def updateData_step_def apply_data_def field_def parseInt_Num number_def
      parseInt_str_def isWhiteSpace_def radix_digits_def digits_value_def digit_of_def isNaN_def is_text_def is_optional_text_def is_optional_int_def
      is_optional_role_def int_of_def put_age_26_postgres_def store12_def user12_def
      json_user_def Let_def)

text \<open>
  C5. After a successful update (HTTP 200) of an existing record, a field of
  name, email, age, role that is not a key of the payload has, in the returned record
  and in the stored one, the value it had before. This holds on the document adapter
  for a payload whose keys are among the four, and on the relational adapter, which
  moreover sends to the store no field that the payload does not have: every key of
  the update data is one of the four fields and a key of the payload.
\<close>

theorem partial_update:
  "(updateUserInMongo UserModel req db = (resp, db') \<and> http_status resp = 200
      \<and> dom (body req) \<subseteq> set client_fields
      \<and> find (\<lambda>d. ident d = toLowerCase (params_id req)) (rows db) = Some d
      \<and> k \<in> set client_fields \<and> body req k = None \<longrightarrow>
    map_option (user_field k) (returned_user resp) = Some (user_field k d)
    \<and> map_option (user_field k)
         (find (\<lambda>x. ident x = toLowerCase (params_id req)) (rows db'))
       = Some (user_field k d))
   \<and> (updateUserInPostgres prismaUser q tb = (presp, tb') \<and> http_status presp = 200
      \<and> parseInt_str (params_id q) = Some i
      \<and> find (\<lambda>r. ident r = i) (rows tb) = Some r
      \<and> k \<in> set client_fields \<and> body q k = None \<longrightarrow>
    buildUpdateData (body q) k = None
    \<and> map_option (user_field k) (returned_user presp) = Some (user_field k r)
    \<and> map_option (user_field k) (find (\<lambda>x. ident x = i) (rows tb')) = Some (user_field k r))
   \<and> (buildUpdateData b k' \<noteq> None \<longrightarrow> b k' \<noteq> None \<and> k' \<in> set client_fields)"
proof -
  have sparse: "buildUpdateData b k' \<noteq> None \<longrightarrow> b k' \<noteq> None \<and> k' \<in> set client_fields"
    by (auto simp: buildUpdateData_apply field_def split: if_splits option.splits)
  show ?thesis
    using partial_update_mongo [of req db resp db' d k]
      partial_update_postgres [of q tb presp tb' i r k] sparse
    by blast
qed

theorem partial_update_witness:
  "updateUserInMongo UserModel put_age_26 storeAnn =
     (json_user 200 (Some ''User updated successfully'') (docAnn\<lparr>age := Some 26, updatedAt := 1\<rparr>),
      \<lparr>rows = [docAnn\<lparr>age := Some 26, updatedAt := 1\<rparr>], counter = 2, clock = 2\<rparr>)
   \<and> dom (body put_age_26) \<subseteq> set client_fields
   \<and> find (\<lambda>d. ident d = toLowerCase (params_id put_age_26)) (rows storeAnn) = Some docAnn
   \<and> ''name'' \<in> set client_fields \<and> body put_age_26 ''name'' = None
   \<and> map_option (user_field ''name'')
        (returned_user (json_user 200 (Some ''User updated successfully'')
           (docAnn\<lparr>age := Some 26, updatedAt := 1\<rparr>))) = Some (Str ''Ann'')
   \<and> user_field ''name'' docAnn = Str ''Ann''
   \<and> updateUserInPostgres prismaUser put_age_26_postgres store12 =
     (json_user 200 (Some ''User updated successfully'') (user12\<lparr>age := Some 26, updatedAt := 1\<rparr>),
      \<lparr>rows = [user12\<lparr>age := Some 26, updatedAt := 1\<rparr>], counter = 13, clock = 2\<rparr>)
   \<and> parseInt_str (params_id put_age_26_postgres) = Some 12
   \<and> find (\<lambda>r. ident r = 12) (rows store12) = Some user12
   \<and> body put_age_26_postgres ''name'' = None
   \<and> buildUpdateData (body put_age_26_postgres) ''name'' = None
   \<and> map_option (user_field ''name'')
        (find (\<lambda>x. ident x = 12)
           (rows \<lparr>rows = [user12\<lparr>age := Some 26, updatedAt := 1\<rparr>], counter = 13, clock = 2\<rparr>))
       = Some (Str ''Bo'')
   \<and> user_field ''name'' user12 = Str ''Bo''
   \<and> buildUpdateData (body put_age_26_postgres) ''age'' \<noteq> None
   \<and> body put_age_26_postgres ''age'' \<noteq> None"
proof -
  have s: "http_status (json_user 200 (Some ''User updated successfully'') u) = 200" for u :: "'a user"
    by (simp add: json_user_def)
  have dm: "dom (body put_age_26) \<subseteq> set client_fields"
    by (simp add: put_age_26_def client_fields_def)
  have fm: "find (\<lambda>d. ident d = toLowerCase (params_id put_age_26)) (rows storeAnn) = Some docAnn"
    by (simp add: put_age_26_def storeAnn_def docAnn_def toLowerCase_def lower_char_def)
  have k: "''name'' \<in> set client_fields"
    by (simp add: client_fields_def)
  have am: "body put_age_26 ''name'' = None"
    by (simp add: put_age_26_def)
  have nm: "user_field ''name'' docAnn = Str ''Ann''"
    by (simp add: user_field_simps docAnn_def)
  have pi: "parseInt_str (params_id put_age_26_postgres) = Some 12"
    by (simp add: put_age_26_postgres_def parseInt_eval)
  have fp: "find (\<lambda>r. ident r = 12) (rows store12) = Some user12"
    by (simp add: store12_def user12_def)
  have ap: "body put_age_26_postgres ''name'' = None"
    by (simp add: put_age_26_postgres_def)
  have np: "user_field ''name'' user12 = Str ''Bo''"
    by (simp add: user_field_simps user12_def)
  have sent: "buildUpdateData (body put_age_26_postgres) ''age'' \<noteq> None"
    by (simp add: buildUpdateData_apply client_fields_def put_age_26_postgres_def field_def)
  note inst = partial_update [of put_age_26 storeAnn
      "json_user 200 (Some ''User updated successfully'') (docAnn\<lparr>age := Some 26, updatedAt := 1\<rparr>)"
      "\<lparr>rows = [docAnn\<lparr>age := Some 26, updatedAt := 1\<rparr>], counter = 2, clock = 2\<rparr>"
      docAnn "''name''" put_age_26_postgres store12
      "json_user 200 (Some ''User updated successfully'') (user12\<lparr>age := Some 26, updatedAt := 1\<rparr>)"
      "\<lparr>rows = [user12\<lparr>age := Some 26, updatedAt := 1\<rparr>], counter = 13, clock = 2\<rparr>"
      12 user12 "body put_age_26_postgres" "''age''"]
  from inst show ?thesis
    by (simp add: put_age_26_mongo_result put_age_26_postgres_result s dm fm k am pi fp ap
        sent nm np)
qed

section \<open>Falsy values in the relational update\<close>









end
